theory Spec2Isabelle
  imports Main
begin

section \<open>Configuration of the print server (server.py)\<close>

definition UPLOAD_FOLDER :: string where
  "UPLOAD_FOLDER = ''/var/lib/stark/uploads''"

definition WORK_FOLDER :: string where
  "WORK_FOLDER = ''/var/lib/stark/work''"

definition PRINTER_NAME :: "string option" where
  "PRINTER_NAME = None"

definition ALLOWED_EXTENSIONS :: "string set" where
  "ALLOWED_EXTENSIONS = {''pdf'', ''docx'', ''pptx'', ''xlsx''}"

definition MAX_FILE_SIZE_MB :: nat where
  "MAX_FILE_SIZE_MB = 50"

definition MAX_CONTENT_LENGTH :: nat where
  "MAX_CONTENT_LENGTH = MAX_FILE_SIZE_MB * 1024 * 1024"

definition WORKER_COUNT :: nat where
  "WORKER_COUNT = 1"

definition CONVERT_TIMEOUT :: nat where
  "CONVERT_TIMEOUT = 60"

definition PRINT_TIMEOUT :: nat where
  "PRINT_TIMEOUT = 30"

section \<open>Python string and path primitives used by the server\<close>

text \<open>
  Strings are \<^typ>\<open>string\<close>, a character standing for a code point below 256.
  \<open>is_space\<close> holds of the code points below 256 that \<open>str.isspace\<close> holds of (the
  ASCII white space, U+001C to U+001F, U+0085 and U+00A0), so \<open>strip\<close> is \<open>str.strip\<close>
  on such strings. \<open>lower\<close> maps the ASCII capitals as \<open>str.lower\<close> does and leaves
  every other character alone; \<open>str.lower\<close> maps a code point from 128 to 255 to
  one of these again, so the comparisons of a lowered extension with \<open>pdf\<close>,
  \<open>docx\<close>, \<open>pptx\<close> and \<open>xlsx\<close> come out the same.
\<close>

definition lower_char :: "char \<Rightarrow> char" where
  "lower_char c =
     (case map_of (zip ''ABCDEFGHIJKLMNOPQRSTUVWXYZ'' ''abcdefghijklmnopqrstuvwxyz'') c of
        Some l \<Rightarrow> l
      | None \<Rightarrow> c)"

definition lower :: "string \<Rightarrow> string" where
  "lower s = map lower_char s"

definition is_space :: "char \<Rightarrow> bool" where
  "is_space c = ((of_char c :: nat) \<in> {9, 10, 11, 12, 13, 28, 29, 30, 31, 32, 133, 160})"

definition strip :: "string \<Rightarrow> string" where
  "strip s = rev (dropWhile is_space (rev (dropWhile is_space s)))"

text \<open>\<open>s.rsplit(".", 1)\<close>: one element when \<open>s\<close> has no dot, else the parts around the last dot.\<close>

definition rsplit_dot :: "string \<Rightarrow> string list" where
  "rsplit_dot s =
     (if CHR ''.'' \<in> set s
      then [rev (tl (dropWhile (\<lambda>c. c \<noteq> CHR ''.'') (rev s))),
            rev (takeWhile (\<lambda>c. c \<noteq> CHR ''.'') (rev s))]
      else [s])"

text \<open>\<open>a or b\<close> on strings: the empty string is falsy.\<close>

definition py_or :: "string \<Rightarrow> string \<Rightarrow> string" where
  "py_or a b = (if a \<noteq> [] then a else b)"

text \<open>\<open>str(n)\<close> of an integer: decimal digits, a minus sign when negative.\<close>

definition digit_char :: "nat \<Rightarrow> char" where
  "digit_char d = ''0123456789'' ! d"

fun str_nat :: "nat \<Rightarrow> string" where
  "str_nat n = (if n < 10 then [digit_char n] else str_nat (n div 10) @ [digit_char (n mod 10)])"

declare str_nat.simps [simp del]

definition str_int :: "int \<Rightarrow> string" where
  "str_int i = (if i < 0 then CHR ''-'' # str_nat (nat (- i)) else str_nat (nat i))"

text \<open>\<open>s.rfind(c)\<close>: the last index of \<open>c\<close>, or -1.\<close>

definition rfind :: "char \<Rightarrow> string \<Rightarrow> int" where
  "rfind c s =
     (if c \<in> set s then int (length s) - 1 - int (length (takeWhile (\<lambda>d. d \<noteq> c) (rev s)))
      else - 1)"

text \<open>\<open>os.path.join(a, b)\<close>, \<open>os.path.basename\<close> and \<open>os.path.splitext\<close> of posixpath.\<close>

definition path_join :: "string \<Rightarrow> string \<Rightarrow> string" where
  "path_join a b =
     (if b \<noteq> [] \<and> hd b = CHR ''/'' then b
      else if a = [] \<or> last a = CHR ''/'' then a @ b
      else a @ ''/'' @ b)"

definition basename :: "string \<Rightarrow> string" where
  "basename p = drop (nat (rfind (CHR ''/'') p + 1)) p"

definition splitext :: "string \<Rightarrow> string \<times> string" where
  "splitext p =
     (let sepIndex = rfind (CHR ''/'') p;
          dotIndex = rfind (CHR ''.'') p
      in if dotIndex > sepIndex \<and>
            list_ex (\<lambda>c. c \<noteq> CHR ''.'')
              (take (nat (dotIndex - (sepIndex + 1))) (drop (nat (sepIndex + 1)) p))
         then (take (nat dotIndex) p, drop (nat dotIndex) p)
         else (p, []))"

section \<open>Data model: jobs, history entries, calls to the outside, server state\<close>

text \<open>
  The job dictionary built by \<open>upload\<close>: keys \<open>id\<close>, \<open>filename\<close>, \<open>filepath\<close>,
  \<open>client\<close>, \<open>received_at\<close> (the key \<open>id\<close> is the field \<open>jid\<close>).
\<close>

record job =
  jid :: string
  filename :: string
  filepath :: string
  client :: string
  received_at :: string

text \<open>
  A history dictionary. Every entry has \<open>timestamp\<close>, \<open>job_id\<close>, \<open>filename\<close>
  (field \<open>h_filename\<close>) and \<open>status\<close>; \<open>client\<close> (field \<open>h_client\<close>), \<open>error\<close> and
  \<open>printer_response\<close> are present on some statuses only.
\<close>

record history_entry =
  timestamp :: string
  job_id :: string
  h_filename :: string
  status :: string
  h_client :: "string option"
  error :: "string option"
  printer_response :: "string option"

text \<open>
  What the server does to the outside world, in the order it does it: directory creation
  of \<open>tempfile.TemporaryDirectory\<close>, \<open>shutil.copy\<close>, \<open>subprocess.run\<close> with its
  timeout, the removal of the temporary directory when the \<open>with\<close> block is left,
  \<open>os.remove\<close>, and \<open>f.save\<close> of an upload.
\<close>

datatype call =
  Mkdtemp string
  | Copy string string
  | Subprocess "string list" nat
  | Rmtree string
  | OsRemove string
  | Save string

datatype log_level = INFO | ERROR | EXCEPTION

text \<open>
  The process-wide state: \<open>job_queue\<close> (a \<open>queue.Queue\<close>; \<open>None\<close> is the shutdown
  sentinel, \<open>put\<close> appends at the tail, \<open>get\<close> takes the head), \<open>job_history\<close>, the
  calls made so far and the log lines written. The queue's count of unfinished tasks
  (\<open>task_done\<close>) is read by nothing in the server and is left out.
\<close>

record server =
  job_queue :: "job option list"
  job_history :: "history_entry list"
  calls :: "call list"
  logged :: "(log_level \<times> string) list"

definition initial :: server where
  "initial = \<lparr>job_queue = [], job_history = [], calls = [], logged = []\<rparr>"

definition do_call :: "call \<Rightarrow> server \<Rightarrow> server" where
  "do_call c s = s\<lparr>calls := calls s @ [c]\<rparr>"

definition logger :: "log_level \<Rightarrow> string \<Rightarrow> server \<Rightarrow> server" where
  "logger lvl msg s = s\<lparr>logged := logged s @ [(lvl, msg)]\<rparr>"

section \<open>The history ledger\<close>

text \<open>
  \<open>record_history\<close>, as a function of the global list \<open>job_history\<close> it mutates: append,
  then delete index 0 when more than 200 entries are held.
\<close>

definition record_history :: "history_entry \<Rightarrow> history_entry list \<Rightarrow> history_entry list" where
  "record_history entry h =
     (let h' = h @ [entry] in if length h' > 200 then tl h' else h')"

text \<open>A call of \<open>record_history\<close> in a server state.\<close>

definition recording :: "history_entry \<Rightarrow> server \<Rightarrow> server" where
  "recording entry s = s\<lparr>job_history := record_history entry (job_history s)\<rparr>"

section \<open>External processes\<close>

text \<open>
  How a \<open>subprocess.run\<close> ended: it completed with a return code and its decoded
  standard output and error, it raised \<open>TimeoutExpired\<close>, or it raised something else;
  the string of an exception is its \<open>str\<close>.
\<close>

datatype proc_outcome =
  Completed int string string
  | TimeoutExpired string
  | OtherError string

text \<open>
  The answers of the outside world while a worker handles one job: the two clock
  readings, the directory \<open>TemporaryDirectory\<close> created (\<open>None\<close>: it raised), whether
  \<open>shutil.copy\<close> succeeded, how the converter and \<open>lp\<close> ended, \<open>os.path.exists\<close>, and
  whether removing the temporary directory succeeded. The outcome of \<open>os.remove\<close> is not
  here: the worker ignores it.
\<close>

record job_env =
  now_processing :: string
  mkdtemp :: "string option"
  copy_ok :: bool
  convert_outcome :: proc_outcome
  path_exists :: "string \<Rightarrow> bool"
  print_outcome :: proc_outcome
  now_terminal :: string
  rmtree_ok :: bool

text \<open>
  \<open>run_subprocess(cmd, timeout)\<close>, given how the process it starts ends: the call is
  made, and the three ways of ending give the three returns of the source.
\<close>

definition run_subprocess ::
  "proc_outcome \<Rightarrow> string list \<Rightarrow> nat \<Rightarrow> server \<Rightarrow> (int \<times> string \<times> string) \<times> server" where
  "run_subprocess outcome cmd timeout s =
     (let s' = do_call (Subprocess cmd timeout) s
      in case outcome of
           Completed rc out err \<Rightarrow> ((rc, out, err), s')
         | TimeoutExpired e \<Rightarrow> ((- 1, [], ''Timeout expired: '' @ e), s')
         | OtherError e \<Rightarrow> ((- 1, [], e), s'))"

text \<open>\<open>convert_to_pdf\<close>: \<open>Inl\<close> is the message of the \<open>RuntimeError\<close> it raises.\<close>

definition convert_to_pdf ::
  "job_env \<Rightarrow> string \<Rightarrow> string \<Rightarrow> server \<Rightarrow> (string + string) \<times> server" where
  "convert_to_pdf w input_path out_dir s =
     (let cmd = [''libreoffice'', ''--headless'', ''--invisible'',
                 ''--convert-to'', ''pdf'', ''--outdir'', out_dir, input_path];
          ((code, out, err), s') = run_subprocess (convert_outcome w) cmd CONVERT_TIMEOUT s
      in if code \<noteq> 0 then (Inl (''LibreOffice failed: '' @ py_or err out), s')
         else
           (let base = fst (splitext (basename input_path));
                pdf_path = path_join out_dir (base @ ''.pdf'')
            in if \<not> path_exists w pdf_path
               then (Inl (''Conversion did not produce PDF: expected '' @ pdf_path), s')
               else (Inr pdf_path, s')))"

definition print_pdf :: "job_env \<Rightarrow> string \<Rightarrow> server \<Rightarrow> (bool \<times> string) \<times> server" where
  "print_pdf w pdf_path s =
     (let cmd = [''lp'']
            @ (case PRINTER_NAME of
                 Some n \<Rightarrow> (if n \<noteq> [] then [''-d'', n] else [])
               | None \<Rightarrow> [])
            @ [pdf_path];
          ((code, out, err), s') = run_subprocess (print_outcome w) cmd PRINT_TIMEOUT s
      in if code \<noteq> 0 then ((False, py_or err out), s') else ((True, strip out), s'))"

section \<open>The worker\<close>

datatype exn = OSError | IndexError

text \<open>The history entries a worker writes for a job.\<close>

definition processing_entry :: "job_env \<Rightarrow> job \<Rightarrow> history_entry" where
  "processing_entry w job =
     \<lparr>timestamp = now_processing w, job_id = jid job, h_filename = filename job,
      status = ''processing'', h_client = Some (client job), error = None,
      printer_response = None\<rparr>"

definition conversion_failed_entry :: "job_env \<Rightarrow> job \<Rightarrow> string \<Rightarrow> history_entry" where
  "conversion_failed_entry w job msg =
     \<lparr>timestamp = now_terminal w, job_id = jid job, h_filename = filename job,
      status = ''conversion_failed'', h_client = None, error = Some msg,
      printer_response = None\<rparr>"

definition printed_entry :: "job_env \<Rightarrow> job \<Rightarrow> string \<Rightarrow> history_entry" where
  "printed_entry w job msg =
     \<lparr>timestamp = now_terminal w, job_id = jid job, h_filename = filename job,
      status = ''printed'', h_client = None, error = None,
      printer_response = Some msg\<rparr>"

definition print_failed_entry :: "job_env \<Rightarrow> job \<Rightarrow> string \<Rightarrow> history_entry" where
  "print_failed_entry w job msg =
     \<lparr>timestamp = now_terminal w, job_id = jid job, h_filename = filename job,
      status = ''print_failed'', h_client = None, error = Some msg,
      printer_response = None\<rparr>"

text \<open>
  The body of the \<open>with tempfile.TemporaryDirectory(...) as tmpdir\<close> block of
  \<open>worker_loop\<close>. The result says how the block was left: \<open>Some e\<close> when an exception
  escaped it, \<open>None\<close> when it ran to its end or was left by \<open>continue\<close>.
  \<open>secure_filename\<close> is werkzeug's function, taken as a parameter.
\<close>

definition with_tmpdir ::
  "(string \<Rightarrow> string) \<Rightarrow> job_env \<Rightarrow> job \<Rightarrow> string \<Rightarrow> server \<Rightarrow> exn option \<times> server" where
  "with_tmpdir secure_filename w job tmpdir s0 =
     (let tmp_input = path_join tmpdir (secure_filename (filename job));
          s1 = do_call (Copy (filepath job) tmp_input) s0
      in if \<not> copy_ok w then (Some OSError, s1)
         else
           (case rsplit_dot (filename job) of
              [_, e] \<Rightarrow>
                (let ext = lower e
                 in case (if ext = ''pdf'' then (Inr tmp_input, s1)
                          else convert_to_pdf w tmp_input tmpdir s1) of
                      (Inl msg, s2) \<Rightarrow>
                        (None,
                         recording (conversion_failed_entry w job msg)
                           (logger EXCEPTION ''Conversion failed'' s2))
                    | (Inr pdf_path, s2) \<Rightarrow>
                        (let ((ok, msg), s3) = print_pdf w pdf_path s2
                         in if ok
                            then (None,
                                  recording (printed_entry w job msg)
                                    (logger INFO (''Job '' @ jid job @ '' printed successfully.'') s3))
                            else (None,
                                  recording (print_failed_entry w job msg)
                                    (logger ERROR (''Job '' @ jid job @ '' print failed: '' @ msg) s3))))
            | _ \<Rightarrow> (Some IndexError, s1)))"

text \<open>
  One job in \<open>worker_loop\<close>, from the \<open>try\<close> to the end of the \<open>finally\<close>: the
  \<open>processing\<close> entry, the temporary directory and its removal when the block is left
  (on every way out), the handler that only logs an exception that escaped, and the
  removal of the uploaded file, whose own failure is swallowed.
\<close>

definition process_job ::
  "(string \<Rightarrow> string) \<Rightarrow> int \<Rightarrow> job_env \<Rightarrow> job \<Rightarrow> server \<Rightarrow> server" where
  "process_job secure_filename worker_id w job s0 =
     (let s1 = logger INFO (''Worker '' @ str_int worker_id @ '' processing job '' @ jid job
                 @ '' file='' @ filename job) s0;
          s2 = recording (processing_entry w job) s1;
          s3 = do_call (Mkdtemp WORK_FOLDER) s2;
          (raised, s4) =
            (case mkdtemp w of
               None \<Rightarrow> (Some OSError, s3)
             | Some tmpdir \<Rightarrow>
                 (let (r, s') = with_tmpdir secure_filename w job tmpdir s3;
                      s'' = do_call (Rmtree tmpdir) s'
                  in (if rmtree_ok w then r else Some OSError, s'')));
          s5 = (case raised of
                  Some e \<Rightarrow> logger EXCEPTION ''Unhandled exception in worker'' s4
                | None \<Rightarrow> s4)
      in do_call (OsRemove (filepath job)) s5)"

text \<open>
  One turn of the \<open>while True\<close> loop of \<open>worker_loop\<close>: \<open>None\<close> when \<open>job_queue.get()\<close>
  would block on an empty queue; otherwise the item that \<open>get\<close> returned (\<open>None\<close> is the
  shutdown sentinel, after which the loop is left) and the state after the turn.
\<close>

definition worker_loop_iter ::
  "(string \<Rightarrow> string) \<Rightarrow> int \<Rightarrow> job_env \<Rightarrow> server \<Rightarrow> (job option \<times> server) option" where
  "worker_loop_iter secure_filename worker_id w s =
     (case job_queue s of
        [] \<Rightarrow> None
      | item # rest \<Rightarrow>
          (let s1 = s\<lparr>job_queue := rest\<rparr>
           in case item of
                None \<Rightarrow>
                  Some (None,
                        logger INFO (''Worker '' @ str_int worker_id @ '' received shutdown signal.'') s1)
              | Some job \<Rightarrow> Some (Some job, process_job secure_filename worker_id w job s1)))"

section \<open>The upload endpoint\<close>

text \<open>
  The address check \<open>restrict_remote\<close> runs before \<open>upload\<close> and is not part of it.
  What \<open>upload\<close> reads: whether the form has a \<open>file\<close> part, the part's file name, the
  size of its stream, the client's address, and the answers of the outside world during
  the call (the clock in milliseconds, whether \<open>f.save\<close> succeeded, the UTC time string).
\<close>

record request =
  has_file :: bool
  upload_filename :: string
  stream_size :: nat
  remote_addr :: string
  time_ms :: int
  save_ok :: bool
  utcnow :: string

record response =
  http_status :: nat
  body :: "(string \<times> string) list"

definition allowed_file :: "string \<Rightarrow> bool" where
  "allowed_file fname =
     (let ext = rsplit_dot fname in length ext = 2 \<and> lower (ext ! 1) \<in> ALLOWED_EXTENSIONS)"

text \<open>
  \<open>upload\<close> up to and including \<open>job_queue.put(job)\<close>: \<open>Inl\<close> is a rejection with its
  response, \<open>Inr\<close> the job that was put. The list of allowed extensions in the message is
  \<open>', '.join(sorted(ALLOWED_EXTENSIONS))\<close>.
\<close>

definition upload_enqueue ::
  "(string \<Rightarrow> string) \<Rightarrow> request \<Rightarrow> server \<Rightarrow> (response \<times> server) + (job \<times> server)" where
  "upload_enqueue secure_filename req s =
     (if \<not> has_file req
      then Inl (\<lparr>http_status = 400, body = [(''error'', ''No file part'')]\<rparr>, s)
      else if upload_filename req = []
      then Inl (\<lparr>http_status = 400, body = [(''error'', ''No selected file'')]\<rparr>, s)
      else
        (let fname = secure_filename (upload_filename req)
         in if \<not> allowed_file fname
            then Inl (\<lparr>http_status = 400,
                       body = [(''error'',
                                ''Unsupported file type. Allowed: docx, pdf, pptx, xlsx'')]\<rparr>, s)
            else if stream_size req > MAX_CONTENT_LENGTH
            then Inl (\<lparr>http_status = 413,
                       body = [(''error'',
                                ''File too large (> '' @ str_nat MAX_FILE_SIZE_MB @ '' MB)'')]\<rparr>, s)
            else
              (let timestamp = time_ms req;
                   unique_name = str_int timestamp @ ''_'' @ fname;
                   save_path = path_join UPLOAD_FOLDER unique_name;
                   s1 = do_call (Save save_path) s
               in if \<not> save_ok req
                  then Inl (\<lparr>http_status = 500, body = [(''error'', ''Failed to save file'')]\<rparr>,
                            logger EXCEPTION ''Failed to save uploaded file'' s1)
                  else
                    (let job_id = ''job-'' @ str_int timestamp;
                         job = \<lparr>jid = job_id, filename = fname, filepath = save_path,
                                client = remote_addr req, received_at = utcnow req\<rparr>
                     in Inr (job, s1\<lparr>job_queue := job_queue s1 @ [Some job]\<rparr>)))))"

text \<open>The rest of \<open>upload\<close>, after the put: the \<open>queued\<close> entry, the log line, the response.\<close>

definition upload_finish :: "job \<Rightarrow> server \<Rightarrow> response \<times> server" where
  "upload_finish job s =
     (let s1 = recording
                 \<lparr>timestamp = received_at job, job_id = jid job, h_filename = filename job,
                  status = ''queued'', h_client = Some (client job), error = None,
                  printer_response = None\<rparr> s;
          s2 = logger INFO (''Queued job '' @ jid job @ '' from '' @ client job @ '' -> ''
                 @ filename job) s1
      in (\<lparr>http_status = 200, body = [(''status'', ''queued''), (''job_id'', jid job)]\<rparr>, s2))"

definition upload :: "(string \<Rightarrow> string) \<Rightarrow> request \<Rightarrow> server \<Rightarrow> response \<times> server" where
  "upload secure_filename req s =
     (case upload_enqueue secure_filename req s of
        Inl rejected \<Rightarrow> rejected
      | Inr (job, s') \<Rightarrow> upload_finish job s')"

definition shutdown_workers :: "server \<Rightarrow> server" where
  "shutdown_workers s =
     (let s1 = logger INFO ''Shutting down workers...'' s
      in s1\<lparr>job_queue := job_queue s1 @ replicate WORKER_COUNT None\<rparr>)"

section \<open>The running server: request handlers and the one worker, interleaved\<close>

text \<open>
  The server runs \<open>WORKER_COUNT = 1\<close> worker thread beside the threads of the request
  handlers. A run is a sequence of events, each atomic: a handler runs \<open>upload\<close> up to
  its \<open>job_queue.put\<close> (\<open>Begin\<close>); a handler that has put its job runs the rest of
  \<open>upload\<close> (\<open>Finish k\<close>, for the \<open>k\<close>-th such handler); the worker takes one turn of
  its loop (\<open>Work\<close>, with the answers of the outside world for that turn; nothing happens
  when the queue is empty or the worker has left its loop); \<open>shutdown_workers\<close> runs
  (\<open>Shutdown\<close>). A step reports the job it put on the queue or took from it. The
  worker's turn is one step: a handler that runs during the turn changes the queue only
  by appending to it, so taking its steps before or after the turn leaves the order of
  the puts and of the gets as it is.
\<close>

datatype event = Begin request | Finish nat | Work job_env | Shutdown

datatype label = Enqueued job | Dequeued job

record system =
  srv :: server
  handlers :: "job list"
  worker_alive :: bool

definition start :: system where
  "start =
     \<lparr>srv = logger INFO (''Worker '' @ str_int 1 @ '' started.'') initial,
      handlers = [], worker_alive = True\<rparr>"

definition sys_step :: "(string \<Rightarrow> string) \<Rightarrow> event \<Rightarrow> system \<Rightarrow> label list \<times> system" where
  "sys_step secure_filename ev sys =
     (case ev of
        Begin req \<Rightarrow>
          (case upload_enqueue secure_filename req (srv sys) of
             Inl (resp, s') \<Rightarrow> ([], sys\<lparr>srv := s'\<rparr>)
           | Inr (job, s') \<Rightarrow>
               ([Enqueued job], sys\<lparr>srv := s', handlers := handlers sys @ [job]\<rparr>))
      | Finish k \<Rightarrow>
          (if k < length (handlers sys)
           then ([], sys\<lparr>srv := snd (upload_finish (handlers sys ! k) (srv sys)),
                         handlers := take k (handlers sys) @ drop (Suc k) (handlers sys)\<rparr>)
           else ([], sys))
      | Work w \<Rightarrow>
          (if worker_alive sys
           then (case worker_loop_iter secure_filename 1 w (srv sys) of
                   None \<Rightarrow> ([], sys)
                 | Some (None, s') \<Rightarrow> ([], sys\<lparr>srv := s', worker_alive := False\<rparr>)
                 | Some (Some job, s') \<Rightarrow> ([Dequeued job], sys\<lparr>srv := s'\<rparr>))
           else ([], sys))
      | Shutdown \<Rightarrow> ([], sys\<lparr>srv := shutdown_workers (srv sys)\<rparr>))"

fun run :: "(string \<Rightarrow> string) \<Rightarrow> event list \<Rightarrow> system \<Rightarrow> label list \<times> system" where
  "run secure_filename [] sys = ([], sys)"
| "run secure_filename (ev # evs) sys =
     (let (l, sys') = sys_step secure_filename ev sys;
          (ls, sys'') = run secure_filename evs sys'
      in (l @ ls, sys''))"

fun enqueued :: "label list \<Rightarrow> job list" where
  "enqueued [] = []"
| "enqueued (Enqueued j # ls) = j # enqueued ls"
| "enqueued (Dequeued j # ls) = enqueued ls"

fun dequeued :: "label list \<Rightarrow> job list" where
  "dequeued [] = []"
| "dequeued (Enqueued j # ls) = dequeued ls"
| "dequeued (Dequeued j # ls) = j # dequeued ls"

text \<open>The jobs waiting in a queue, sentinels left out.\<close>

fun jobs_in :: "job option list \<Rightarrow> job list" where
  "jobs_in [] = []"
| "jobs_in (None # q) = jobs_in q"
| "jobs_in (Some j # q) = j # jobs_in q"

section \<open>Reading the effects of a job\<close>

definition is_terminal :: "history_entry \<Rightarrow> bool" where
  "is_terminal e = (status e \<in> {''printed'', ''print_failed'', ''conversion_failed''})"

text \<open>The paths given to \<open>os.remove\<close> and the commands given to \<open>subprocess.run\<close>, in order.\<close>

fun removed :: "call list \<Rightarrow> string list" where
  "removed [] = []"
| "removed (OsRemove p # cs) = p # removed cs"
| "removed (c # cs) = removed cs"

fun commands :: "call list \<Rightarrow> string list list" where
  "commands [] = []"
| "commands (Subprocess cmd t # cs) = cmd # commands cs"
| "commands (c # cs) = commands cs"

section \<open>Concrete inputs\<close>

text \<open>
  An upload of \<open>report.pdf\<close> and one of \<open>slides.pptx\<close> whose clock readings fall into
  the same millisecond, the job the first one puts on the queue, and answers of the
  outside world for a worker's turn in which everything succeeds.
\<close>

definition report_upload :: request where
  "report_upload =
     \<lparr>has_file = True, upload_filename = ''report.pdf'', stream_size = 48213,
      remote_addr = ''192.168.1.20'', time_ms = 1700000000000, save_ok = True,
      utcnow = ''2023-11-14T22:13:20.000512Z''\<rparr>"

definition slides_upload :: request where
  "slides_upload =
     \<lparr>has_file = True, upload_filename = ''slides.pptx'', stream_size = 911004,
      remote_addr = ''192.168.1.21'', time_ms = 1700000000000, save_ok = True,
      utcnow = ''2023-11-14T22:13:20.000907Z''\<rparr>"

definition report_job :: job where
  "report_job =
     \<lparr>jid = ''job-1700000000000'', filename = ''report.pdf'',
      filepath = ''/var/lib/stark/uploads/1700000000000_report.pdf'',
      client = ''192.168.1.20'', received_at = ''2023-11-14T22:13:20.000512Z''\<rparr>"

definition slides_job :: job where
  "slides_job =
     \<lparr>jid = ''job-1700000000000'', filename = ''slides.pptx'',
      filepath = ''/var/lib/stark/uploads/1700000000000_slides.pptx'',
      client = ''192.168.1.21'', received_at = ''2023-11-14T22:13:20.000907Z''\<rparr>"

definition all_well :: job_env where
  "all_well =
     \<lparr>now_processing = ''2023-11-14T22:13:20.001330Z'',
      mkdtemp = Some ''/var/lib/stark/work/tmpk3v9x2ab'',
      copy_ok = True,
      convert_outcome = Completed 0 ''convert slides.pptx -> slides.pdf using filter : impress_pdf_Export'' [],
      path_exists = (\<lambda>p. True),
      print_outcome = Completed 0 ''request id is HP_LaserJet-17 (1 file(s))'' [],
      now_terminal = ''2023-11-14T22:13:21.204518Z'',
      rmtree_ok = True\<rparr>"

section \<open>Properties of the ledger\<close>

lemma record_history_eq:
  "record_history e h = (if length h < 200 then h @ [e] else tl (h @ [e]))"
  by (simp add: record_history_def Let_def)

lemma fold_record_history:
  "length h \<le> 200 \<Longrightarrow>
   fold record_history es h = drop (length h + length es - 200) (h @ es)"
proof (induction es arbitrary: h)
  case Nil
  then show ?case by simp
next
  case (Cons e es)
  show ?case
  proof (cases "length h < 200")
    case True
    then have h: "record_history e h = h @ [e]"
      by (simp add: record_history_eq)
    with True have "length (record_history e h) \<le> 200" by simp
    from Cons.IH [OF this] show ?thesis by (simp add: h)
  next
    case False
    with Cons.prems have len: "length h = 200" by simp
    then have ne: "h \<noteq> []" by auto
    from len have h: "record_history e h = tl h @ [e]"
      using ne by (simp add: record_history_eq)
    with len have "length (record_history e h) \<le> 200" by simp
    from Cons.IH [OF this] have
      "fold record_history es (record_history e h) = drop (length es) (tl h @ e # es)"
      by (simp add: h len)
    also have "\<dots> = drop (length es) (tl (h @ e # es))"
      using ne by simp
    also have "\<dots> = drop (Suc (length es)) (h @ e # es)"
      by (simp only: drop_Suc)
    finally show ?thesis by (simp add: len)
  qed
qed

text \<open>
  Claim C6. After any sequence of appends to the initially empty ledger, the ledger holds
  at most 200 entries; it holds exactly the last \<open>min 200 n\<close> of the \<open>n\<close> appended
  entries, in the order they were appended; and one more append to a ledger that already
  saw 200 appends drops the oldest retained entry (the head) and puts the new entry last.
\<close>

theorem ledger_bounded_fifo_eviction:
  "length (fold record_history es []) \<le> 200 \<and>
   fold record_history es [] = drop (length es - 200) es \<and>
   record_history e (fold record_history es []) =
     (if 200 \<le> length es
      then tl (fold record_history es []) @ [e]
      else fold record_history es [] @ [e])"
proof -
  have a: "fold record_history es [] = drop (length es - 200) es"
    using fold_record_history [of "[]" es] by simp
  have b: "length (fold record_history es []) \<le> 200"
    by (simp add: a)
  have c: "record_history e (fold record_history es []) =
     (if 200 \<le> length es
      then tl (fold record_history es []) @ [e]
      else fold record_history es [] @ [e])"
  proof (cases "200 \<le> length es")
    case True
    then have "length (drop (length es - 200) es) = 200" by simp
    then have len: "length (fold record_history es []) = 200"
      by (simp only: a)
    then have "fold record_history es [] \<noteq> []" by auto
    with len True show ?thesis by (simp add: record_history_eq)
  next
    case False
    then have "length (fold record_history es []) < 200"
      by (simp add: a)
    with False show ?thesis by (simp add: record_history_eq)
  qed
  from a b c show ?thesis by blast
qed

lemma last_record_history: "last (record_history e h) = e"
proof (cases "length h < 200")
  case True
  then show ?thesis by (simp add: record_history_eq)
next
  case False
  then have "h \<noteq> []" by auto
  with False show ?thesis by (simp add: record_history_eq)
qed


lemma record_history_two:
  "length h \<le> 200 \<Longrightarrow>
   record_history t (record_history p h) = drop (length h + 2 - 200) (h @ [p, t])"
  using fold_record_history [of h "[p, t]"] by simp


section \<open>Properties of the worker\<close>

lemma proj_logger [simp]:
  "job_history (logger l m s) = job_history s"
  "calls (logger l m s) = calls s"
  "job_queue (logger l m s) = job_queue s"
  by (simp_all add: logger_def)

lemma proj_do_call [simp]:
  "job_history (do_call c s) = job_history s"
  "calls (do_call c s) = calls s @ [c]"
  "job_queue (do_call c s) = job_queue s"
  by (simp_all add: do_call_def)

lemma proj_recording [simp]:
  "job_history (recording e s) = record_history e (job_history s)"
  "calls (recording e s) = calls s"
  "job_queue (recording e s) = job_queue s"
  by (simp_all add: recording_def)

lemma removed_append [simp]: "removed (xs @ ys) = removed xs @ removed ys"
  by (induction xs rule: removed.induct) simp_all

lemma commands_append [simp]: "commands (xs @ ys) = commands xs @ commands ys"
  by (induction xs rule: commands.induct) simp_all

lemma run_subprocess_snd: "snd (run_subprocess oc cmd t s) = do_call (Subprocess cmd t) s"
  by (cases oc) (simp_all add: run_subprocess_def Let_def)

lemma convert_to_pdf_snd:
  "snd (convert_to_pdf w i d s) =
     do_call (Subprocess [''libreoffice'', ''--headless'', ''--invisible'',
                 ''--convert-to'', ''pdf'', ''--outdir'', d, i] CONVERT_TIMEOUT) s"
  by (cases "convert_outcome w") (simp_all add: convert_to_pdf_def run_subprocess_def Let_def)

lemma print_pdf_snd:
  "snd (print_pdf w p s) = do_call (Subprocess [''lp'', p] PRINT_TIMEOUT) s"
  by (cases "print_outcome w") (simp_all add: print_pdf_def run_subprocess_def Let_def PRINTER_NAME_def)

lemma with_tmpdir_queue: "job_queue (snd (with_tmpdir sf w job d s)) = job_queue s"
  by (simp add: with_tmpdir_def Let_def case_prod_beta convert_to_pdf_snd print_pdf_snd
      split: list.split sum.split)

lemma with_tmpdir_removed: "removed (calls (snd (with_tmpdir sf w job d s))) = removed (calls s)"
  by (simp add: with_tmpdir_def Let_def case_prod_beta convert_to_pdf_snd print_pdf_snd
      split: list.split sum.split)

lemma process_job_queue: "job_queue (process_job sf wid w job s) = job_queue s"
  by (simp add: process_job_def Let_def case_prod_beta with_tmpdir_queue
      split: option.split)

lemma process_job_removed:
  "removed (calls (process_job sf wid w job s)) = removed (calls s) @ [filepath job]"
  by (simp add: process_job_def Let_def case_prod_beta with_tmpdir_removed
      split: option.split)


lemma entry_simps [simp]:
  "is_terminal (printed_entry w job m)" "is_terminal (print_failed_entry w job m)"
  "is_terminal (conversion_failed_entry w job m)" "\<not> is_terminal (processing_entry w job)"
  "job_id (printed_entry w job m) = jid job" "job_id (print_failed_entry w job m) = jid job"
  "job_id (conversion_failed_entry w job m) = jid job" "job_id (processing_entry w job) = jid job"
  by (simp_all add: is_terminal_def printed_entry_def print_failed_entry_def
      conversion_failed_entry_def processing_entry_def)

lemma print_pdf_fst:
  "fst (print_pdf w p s) =
     (case print_outcome w of
        Completed rc out err \<Rightarrow> if rc \<noteq> 0 then (False, py_or err out) else (True, strip out)
      | TimeoutExpired x \<Rightarrow> (False, ''Timeout expired: '' @ x)
      | OtherError x \<Rightarrow> (False, x))"
  by (cases "print_outcome w")
     (simp_all add: print_pdf_def run_subprocess_def Let_def PRINTER_NAME_def py_or_def)

lemma convert_to_pdf_fst:
  "fst (convert_to_pdf w i d s) =
     (case convert_outcome w of
        Completed rc out err \<Rightarrow>
          if rc \<noteq> 0 then Inl (''LibreOffice failed: '' @ py_or err out)
          else if \<not> path_exists w (path_join d (fst (splitext (basename i)) @ ''.pdf''))
          then Inl (''Conversion did not produce PDF: expected ''
                    @ path_join d (fst (splitext (basename i)) @ ''.pdf''))
          else Inr (path_join d (fst (splitext (basename i)) @ ''.pdf''))
      | TimeoutExpired x \<Rightarrow> Inl (''LibreOffice failed: '' @ ''Timeout expired: '' @ x)
      | OtherError x \<Rightarrow> Inl (''LibreOffice failed: '' @ x))"
  by (cases "convert_outcome w")
     (simp_all add: convert_to_pdf_def run_subprocess_def Let_def py_or_def)


lemma rsplit_dot_no_dot: "CHR ''.'' \<notin> set f \<Longrightarrow> rsplit_dot f = [f]"
  by (simp add: rsplit_dot_def)


lemma with_tmpdir_fault:
  assumes "\<not> copy_ok w \<or> CHR ''.'' \<notin> set (filename job)"
  shows "job_history (snd (with_tmpdir sf w job d s)) = job_history s"
    and "fst (with_tmpdir sf w job d s) \<noteq> None"
    and "calls (snd (with_tmpdir sf w job d s)) =
           calls s @ [Copy (filepath job) (path_join d (sf (filename job)))]"
  using assms by (auto simp add: with_tmpdir_def Let_def rsplit_dot_no_dot)


lemma process_job_history:
  "job_history (process_job sf wid w job s) =
     (case mkdtemp w of
        None \<Rightarrow> record_history (processing_entry w job) (job_history s)
      | Some d \<Rightarrow>
          job_history (snd (with_tmpdir sf w job d
            (do_call (Mkdtemp WORK_FOLDER)
               (recording (processing_entry w job)
                  (logger INFO (''Worker '' @ str_int wid @ '' processing job '' @ jid job
                     @ '' file='' @ filename job) s))))))"
  by (simp add: process_job_def Let_def case_prod_beta split: option.split)

lemma process_job_calls:
  "calls (process_job sf wid w job s) =
     (case mkdtemp w of
        None \<Rightarrow> calls s @ [Mkdtemp WORK_FOLDER, OsRemove (filepath job)]
      | Some d \<Rightarrow>
          calls (snd (with_tmpdir sf w job d
            (do_call (Mkdtemp WORK_FOLDER)
               (recording (processing_entry w job)
                  (logger INFO (''Worker '' @ str_int wid @ '' processing job '' @ jid job
                     @ '' file='' @ filename job) s)))))
          @ [Rmtree d, OsRemove (filepath job)])"
  by (simp add: process_job_def Let_def case_prod_beta split: option.split)






lemma with_tmpdir_calls_grow:
  "\<exists>mid. calls (snd (with_tmpdir sf w job d s)) = calls s @ mid \<and> removed mid = []"
  by (simp add: with_tmpdir_def Let_def case_prod_beta convert_to_pdf_snd print_pdf_snd
      split: list.split sum.split)

text \<open>
  Claim C3. On every path through the handling of one job (printed, conversion failed,
  print failed, or an exception that escaped the temporary-directory block), the worker
  calls \<open>os.remove\<close> exactly once, and on the job's \<open>filepath\<close>: the removals made
  so far grow by exactly that one path, and it is the last call made for the job, after
  the calls of the pipeline and the removal of the temporary directory.
\<close>

theorem worker_removes_input_once:
  "removed (calls (process_job sf wid w job s)) = removed (calls s) @ [filepath job] \<and>
   (\<exists>before. calls (process_job sf wid w job s) = calls s @ before @ [OsRemove (filepath job)]
      \<and> removed before = [])"
proof (intro conjI)
  show "removed (calls (process_job sf wid w job s)) = removed (calls s) @ [filepath job]"
    by (rule process_job_removed)
next
  show "\<exists>before. calls (process_job sf wid w job s) = calls s @ before @ [OsRemove (filepath job)]
      \<and> removed before = []"
  proof (cases "mkdtemp w")
    case None
    then have "calls (process_job sf wid w job s) =
        calls s @ [Mkdtemp WORK_FOLDER] @ [OsRemove (filepath job)]"
      by (simp add: process_job_calls)
    moreover have "removed [Mkdtemp WORK_FOLDER] = []" by simp
    ultimately show ?thesis by blast
  next
    case (Some d)
    let ?s3 = "do_call (Mkdtemp WORK_FOLDER)
               (recording (processing_entry w job)
                  (logger INFO (''Worker '' @ str_int wid @ '' processing job '' @ jid job
                     @ '' file='' @ filename job) s))"
    from with_tmpdir_calls_grow [of sf w job d ?s3]
    obtain mid where mid: "calls (snd (with_tmpdir sf w job d ?s3)) = calls ?s3 @ mid"
      "removed mid = []" by blast
    have "calls (process_job sf wid w job s) =
        calls s @ (Mkdtemp WORK_FOLDER # mid @ [Rmtree d]) @ [OsRemove (filepath job)]"
      using Some mid(1) by (simp add: process_job_calls)
    moreover have "removed (Mkdtemp WORK_FOLDER # mid @ [Rmtree d]) = []"
      using mid(2) by simp
    ultimately show ?thesis by blast
  qed
qed





lemma with_tmpdir_pdf:
  assumes "copy_ok w" and "rsplit_dot (filename job) = [b, e]" and "lower e = ''pdf''"
  shows "with_tmpdir sf w job d s =
    (let tmp_input = path_join d (sf (filename job));
         s1 = do_call (Copy (filepath job) tmp_input) s;
         r = fst (print_pdf w tmp_input s1);
         s3 = do_call (Subprocess [''lp'', tmp_input] PRINT_TIMEOUT) s1
     in if fst r
        then (None, recording (printed_entry w job (snd r))
                      (logger INFO (''Job '' @ jid job @ '' printed successfully.'') s3))
        else (None, recording (print_failed_entry w job (snd r))
                      (logger ERROR (''Job '' @ jid job @ '' print failed: '' @ snd r) s3)))"
  using assms
  by (simp add: with_tmpdir_def Let_def case_prod_beta print_pdf_snd)

lemma with_tmpdir_converted:
  assumes "copy_ok w" and "rsplit_dot (filename job) = [b, e]" and "lower e \<noteq> ''pdf''"
    and "convert_outcome w = Completed 0 out err"
    and "path_exists w (path_join d (fst (splitext (basename (path_join d (sf (filename job))))) @ ''.pdf''))"
  shows "with_tmpdir sf w job d s =
    (let tmp_input = path_join d (sf (filename job));
         pdf_path = path_join d (fst (splitext (basename tmp_input)) @ ''.pdf'');
         s1 = do_call (Copy (filepath job) tmp_input) s;
         s2 = do_call (Subprocess [''libreoffice'', ''--headless'', ''--invisible'',
                 ''--convert-to'', ''pdf'', ''--outdir'', d, tmp_input] CONVERT_TIMEOUT) s1;
         r = fst (print_pdf w pdf_path s2);
         s3 = do_call (Subprocess [''lp'', pdf_path] PRINT_TIMEOUT) s2
     in if fst r
        then (None, recording (printed_entry w job (snd r))
                      (logger INFO (''Job '' @ jid job @ '' printed successfully.'') s3))
        else (None, recording (print_failed_entry w job (snd r))
                      (logger ERROR (''Job '' @ jid job @ '' print failed: '' @ snd r) s3)))"
proof -
  let ?ti = "path_join d (sf (filename job))"
  let ?s1 = "do_call (Copy (filepath job) ?ti) s"
  have c: "convert_to_pdf w ?ti d ?s1 =
     (Inr (path_join d (fst (splitext (basename ?ti)) @ ''.pdf'')),
      do_call (Subprocess [''libreoffice'', ''--headless'', ''--invisible'',
                 ''--convert-to'', ''pdf'', ''--outdir'', d, ?ti] CONVERT_TIMEOUT) ?s1)"
    using assms(4,5) convert_to_pdf_fst [of w ?ti d ?s1] convert_to_pdf_snd [of w ?ti d ?s1]
    by (simp add: prod_eq_iff)
  show ?thesis
    using assms(1-3)
    by (simp add: with_tmpdir_def Let_def case_prod_beta print_pdf_snd c)
qed

text \<open>
  Claim C8. For a job that reaches \<open>lp\<close> (directory created, copy succeeded, and
  either a \<open>pdf\<close> extension or a conversion that returned 0 and left its output file) and
  whose \<open>lp\<close> process runs into its timeout: at the end of the worker's turn the newest
  entry of the ledger is the job's entry with status \<open>print_failed\<close>, whose error text
  is \<open>Timeout expired: \<close> followed by the exception's text; the ledger is the one before
  the turn with the \<open>processing\<close> entry and this entry appended, cut to its last 200;
  and right after the \<open>lp\<close> call the removal of the job's temporary directory is called
  (whatever that removal answers), before the input file is removed.
\<close>

theorem print_timeout_is_print_failed:
  assumes "mkdtemp w = Some d" and "copy_ok w" and "rsplit_dot (filename job) = [b, e]"
    and "lower e = ''pdf'' \<or>
         (convert_outcome w = Completed 0 out err \<and>
          path_exists w
            (path_join d (fst (splitext (basename (path_join d (sf (filename job))))) @ ''.pdf'')))"
    and "print_outcome w = TimeoutExpired x"
  shows "job_history (process_job sf wid w job s) =
           record_history (print_failed_entry w job (''Timeout expired: '' @ x))
             (record_history (processing_entry w job) (job_history s)) \<and>
         last (job_history (process_job sf wid w job s)) =
           print_failed_entry w job (''Timeout expired: '' @ x) \<and>
         job_id (last (job_history (process_job sf wid w job s))) = jid job \<and>
         status (last (job_history (process_job sf wid w job s))) = ''print_failed'' \<and>
         error (last (job_history (process_job sf wid w job s)))
           = Some (''Timeout expired: '' @ x) \<and>
         (length (job_history s) \<le> 200 \<longrightarrow>
            job_history (process_job sf wid w job s) =
              drop (length (job_history s) + 2 - 200)
                (job_history s @
                   [processing_entry w job,
                    print_failed_entry w job (''Timeout expired: '' @ x)])) \<and>
         (\<exists>before pdf_path.
            calls (process_job sf wid w job s) =
              calls s @ before @ [Subprocess [''lp'', pdf_path] PRINT_TIMEOUT, Rmtree d,
                                  OsRemove (filepath job)])"
proof -
  let ?t = "print_failed_entry w job (''Timeout expired: '' @ x)"
  have r: "fst (print_pdf w p s') = (False, ''Timeout expired: '' @ x)" for p s'
    using assms(5) by (simp add: print_pdf_fst)
  have hc: "job_history (process_job sf wid w job s) =
           record_history ?t (record_history (processing_entry w job) (job_history s)) \<and>
         (\<exists>before pdf_path.
            calls (process_job sf wid w job s) =
              calls s @ before @ [Subprocess [''lp'', pdf_path] PRINT_TIMEOUT, Rmtree d,
                                  OsRemove (filepath job)])"
  proof (cases "lower e = ''pdf''")
    case True
    have h: "job_history (process_job sf wid w job s) =
             record_history ?t (record_history (processing_entry w job) (job_history s))"
      using assms(1)
      by (simp add: process_job_history with_tmpdir_pdf [OF assms(2,3) True] Let_def r)
    have c: "calls (process_job sf wid w job s) =
        calls s @ [Mkdtemp WORK_FOLDER, Copy (filepath job) (path_join d (sf (filename job)))]
          @ [Subprocess [''lp'', path_join d (sf (filename job))] PRINT_TIMEOUT, Rmtree d,
             OsRemove (filepath job)]"
      using assms(1)
      by (simp add: process_job_calls with_tmpdir_pdf [OF assms(2,3) True] Let_def r)
    from h c show ?thesis by blast
  next
    case False
    with assms(4) have conv: "convert_outcome w = Completed 0 out err"
      and ex: "path_exists w
              (path_join d (fst (splitext (basename (path_join d (sf (filename job))))) @ ''.pdf''))"
      by simp_all
    note wc = with_tmpdir_converted [where sf = sf and d = d, OF assms(2,3) False conv ex]
    have h: "job_history (process_job sf wid w job s) =
             record_history ?t (record_history (processing_entry w job) (job_history s))"
      using assms(1)
      by (simp add: process_job_history wc Let_def r)
    have c: "calls (process_job sf wid w job s) =
        calls s @ [Mkdtemp WORK_FOLDER, Copy (filepath job) (path_join d (sf (filename job))),
                   Subprocess [''libreoffice'', ''--headless'', ''--invisible'',
                     ''--convert-to'', ''pdf'', ''--outdir'', d, path_join d (sf (filename job))]
                     CONVERT_TIMEOUT]
          @ [Subprocess [''lp'', path_join d
                (fst (splitext (basename (path_join d (sf (filename job))))) @ ''.pdf'')]
                PRINT_TIMEOUT, Rmtree d, OsRemove (filepath job)]"
      using assms(1)
      by (simp add: process_job_calls wc Let_def r)
    from h c show ?thesis by blast
  qed
  then have h: "job_history (process_job sf wid w job s) =
           record_history ?t (record_history (processing_entry w job) (job_history s))"
    by blast
  have l: "last (job_history (process_job sf wid w job s)) = ?t"
    by (simp only: h last_record_history)
  have f: "job_id ?t = jid job" "status ?t = ''print_failed''"
    "error ?t = Some (''Timeout expired: '' @ x)"
    by (simp_all add: print_failed_entry_def)
  have d2: "length (job_history s) \<le> 200 \<longrightarrow>
            job_history (process_job sf wid w job s) =
              drop (length (job_history s) + 2 - 200)
                (job_history s @ [processing_entry w job, ?t])"
    using record_history_two [where h = "job_history s" and p = "processing_entry w job" and t = ?t]
    by (simp add: h)
  from hc l f d2 show ?thesis by (simp only: simp_thms)
qed

theorem print_timeout_is_print_failed_witness:
  "job_history (process_job id 1
       (all_well\<lparr>print_outcome := TimeoutExpired ''lp timed out after 30 seconds''\<rparr>)
       report_job initial) =
     [processing_entry
        (all_well\<lparr>print_outcome := TimeoutExpired ''lp timed out after 30 seconds''\<rparr>)
        report_job,
      print_failed_entry
        (all_well\<lparr>print_outcome := TimeoutExpired ''lp timed out after 30 seconds''\<rparr>)
        report_job ''Timeout expired: lp timed out after 30 seconds''] \<and>
   status (last (job_history (process_job id 1
       (all_well\<lparr>print_outcome := TimeoutExpired ''lp timed out after 30 seconds''\<rparr>)
       report_job initial))) = ''print_failed'' \<and>
   (\<exists>before pdf_path.
      calls (process_job id 1
        (all_well\<lparr>print_outcome := TimeoutExpired ''lp timed out after 30 seconds''\<rparr>)
        report_job initial) =
      before @ [Subprocess [''lp'', pdf_path] PRINT_TIMEOUT,
                Rmtree ''/var/lib/stark/work/tmpk3v9x2ab'', OsRemove (filepath report_job)]) \<and>
   job_history (process_job id 1
       (all_well\<lparr>print_outcome := TimeoutExpired ''lp timed out after 30 seconds''\<rparr>)
       slides_job initial) =
     [processing_entry
        (all_well\<lparr>print_outcome := TimeoutExpired ''lp timed out after 30 seconds''\<rparr>)
        slides_job,
      print_failed_entry
        (all_well\<lparr>print_outcome := TimeoutExpired ''lp timed out after 30 seconds''\<rparr>)
        slides_job ''Timeout expired: lp timed out after 30 seconds'']"
proof -
  let ?w = "all_well\<lparr>print_outcome := TimeoutExpired ''lp timed out after 30 seconds''\<rparr>"
  let ?d = "''/var/lib/stark/work/tmpk3v9x2ab''"
  let ?x = "''lp timed out after 30 seconds''"
  have a: "mkdtemp ?w = Some ?d" "copy_ok ?w" "print_outcome ?w = TimeoutExpired ?x"
    by (simp_all add: all_well_def)
  have br: "rsplit_dot (filename report_job) = [''report'', ''pdf'']"
    by (simp add: report_job_def rsplit_dot_def)
  have bs: "rsplit_dot (filename slides_job) = [''slides'', ''pptx'']"
    by (simp add: slides_job_def rsplit_dot_def)
  have cr: "lower ''pdf'' = ''pdf'' \<or>
         (convert_outcome ?w = Completed 0 [] [] \<and>
          path_exists ?w
            (path_join ?d (fst (splitext (basename (path_join ?d (id (filename report_job))))) @ ''.pdf'')))"
    by (simp add: lower_def lower_char_def)
  have cs: "lower ''pptx'' = ''pdf'' \<or>
         (convert_outcome ?w =
            Completed 0 ''convert slides.pptx -> slides.pdf using filter : impress_pdf_Export'' [] \<and>
          path_exists ?w
            (path_join ?d (fst (splitext (basename (path_join ?d (id (filename slides_job))))) @ ''.pdf'')))"
    by (simp add: all_well_def)
  have e: "job_history initial = []" "calls initial = []" by (simp_all add: initial_def)
  note tr = print_timeout_is_print_failed [where sf = id and wid = 1 and s = initial, OF a(1,2) br cr a(3)]
  note ts = print_timeout_is_print_failed [where sf = id and wid = 1 and s = initial, OF a(1,2) bs cs a(3)]
  from tr have hr: "length (job_history initial) \<le> 200 \<longrightarrow>
      job_history (process_job id 1 ?w report_job initial) =
        drop (length (job_history initial) + 2 - 200)
          (job_history initial @
             [processing_entry ?w report_job,
              print_failed_entry ?w report_job (''Timeout expired: '' @ ?x)])"
    by blast
  from ts have hs: "length (job_history initial) \<le> 200 \<longrightarrow>
      job_history (process_job id 1 ?w slides_job initial) =
        drop (length (job_history initial) + 2 - 200)
          (job_history initial @
             [processing_entry ?w slides_job,
              print_failed_entry ?w slides_job (''Timeout expired: '' @ ?x)])"
    by blast
  from tr have st: "status (last (job_history (process_job id 1 ?w report_job initial))) =
      ''print_failed''"
    by blast
  from tr have cl: "\<exists>before pdf_path.
      calls (process_job id 1 ?w report_job initial) =
        calls initial @ before @ [Subprocess [''lp'', pdf_path] PRINT_TIMEOUT, Rmtree ?d,
                                  OsRemove (filepath report_job)]"
    by blast
  from hr have hr': "job_history (process_job id 1 ?w report_job initial) =
      [processing_entry ?w report_job,
       print_failed_entry ?w report_job ''Timeout expired: lp timed out after 30 seconds'']"
    by (simp add: e)
  from hs have hs': "job_history (process_job id 1 ?w slides_job initial) =
      [processing_entry ?w slides_job,
       print_failed_entry ?w slides_job ''Timeout expired: lp timed out after 30 seconds'']"
    by (simp add: e)
  from cl have cl': "\<exists>before pdf_path.
      calls (process_job id 1 ?w report_job initial) =
        before @ [Subprocess [''lp'', pdf_path] PRINT_TIMEOUT, Rmtree ?d,
                  OsRemove (filepath report_job)]"
    by (simp add: e)
  from hr' st cl' hs' show ?thesis by (simp only: simp_thms)
qed

text \<open>
  Claim C9. For a job whose file name has the lower-cased extension \<open>pdf\<close>, the only
  process the worker starts is \<open>lp\<close> on the copy of the input file (and none at all when
  the directory or the copy failed): the converter is never started. When the directory
  was created and the copy succeeded, the calls made for the job are exactly the directory
  creation, the copy to \<open>tmp_input\<close>, \<open>lp\<close> on \<open>tmp_input\<close>, and the two removals.
\<close>

theorem pdf_skips_converter:
  assumes "rsplit_dot (filename job) = [b, e]" and "lower e = ''pdf''"
  shows "commands (calls (process_job sf wid w job s)) =
           commands (calls s) @
             (case mkdtemp w of
                None \<Rightarrow> []
              | Some d \<Rightarrow> if copy_ok w then [[''lp'', path_join d (sf (filename job))]] else []) \<and>
         (mkdtemp w = Some d \<and> copy_ok w \<longrightarrow>
            calls (process_job sf wid w job s) =
              calls s @ [Mkdtemp WORK_FOLDER,
                         Copy (filepath job) (path_join d (sf (filename job))),
                         Subprocess [''lp'', path_join d (sf (filename job))] PRINT_TIMEOUT,
                         Rmtree d, OsRemove (filepath job)])"
proof (cases "mkdtemp w")
  case None
  then show ?thesis by (simp add: process_job_calls)
next
  case (Some d')
  show ?thesis
  proof (cases "copy_ok w")
    case True
    show ?thesis using Some True
      by (simp add: process_job_calls with_tmpdir_pdf [OF True assms] Let_def)
  next
    case False
    then have "\<not> copy_ok w \<or> CHR ''.'' \<notin> set (filename job)" by simp
    from with_tmpdir_fault(3) [OF this] Some False show ?thesis
      by (simp add: process_job_calls)
  qed
qed

theorem pdf_skips_converter_witness:
  "commands (calls (process_job id 1 all_well report_job initial)) =
     [[''lp'', ''/var/lib/stark/work/tmpk3v9x2ab/report.pdf'']] \<and>
   calls (process_job id 1 all_well report_job initial) =
     [Mkdtemp WORK_FOLDER,
      Copy ''/var/lib/stark/uploads/1700000000000_report.pdf''
           ''/var/lib/stark/work/tmpk3v9x2ab/report.pdf'',
      Subprocess [''lp'', ''/var/lib/stark/work/tmpk3v9x2ab/report.pdf''] PRINT_TIMEOUT,
      Rmtree ''/var/lib/stark/work/tmpk3v9x2ab'',
      OsRemove ''/var/lib/stark/uploads/1700000000000_report.pdf'']"
  using pdf_skips_converter
    [where job = report_job and b = "''report''" and e = "''pdf''" and w = all_well
       and sf = id and wid = 1 and s = initial and d = "''/var/lib/stark/work/tmpk3v9x2ab''"]
  by (simp add: all_well_def report_job_def initial_def rsplit_dot_def lower_def lower_char_def
      path_join_def)

section \<open>Properties of the upload endpoint\<close>

lemma upload_enqueue_rejected:
  assumes "upload_enqueue sf req s = Inl (resp, s')"
  shows "job_queue s' = job_queue s" and "job_history s' = job_history s"
    and "http_status resp \<in> {400, 413, 500}" and "\<exists>msg. body resp = [(''error'', msg)]"
  using assms
  by (auto simp add: upload_enqueue_def Let_def split: if_splits)

lemma upload_enqueue_accepted:
  assumes "upload_enqueue sf req s = Inr (job, s')"
  shows "job_queue s' = job_queue s @ [Some job]" and "job_history s' = job_history s"
  using assms
  by (auto simp add: upload_enqueue_def Let_def split: if_splits)

lemma upload_enqueue_Inl_iff:
  "(\<exists>r. upload_enqueue sf req s = Inl r) \<longleftrightarrow>
     (\<not> has_file req \<or> upload_filename req = [] \<or> \<not> allowed_file (sf (upload_filename req))
      \<or> stream_size req > MAX_CONTENT_LENGTH \<or> \<not> save_ok req)"
  by (auto simp add: upload_enqueue_def Let_def split: if_splits)

lemma upload_finish_queue: "job_queue (snd (upload_finish job s)) = job_queue s"
  by (simp add: upload_finish_def Let_def)

text \<open>
  Claim C10. An upload that is rejected (no \<open>file\<close> part, an empty file name, a file name
  whose extension is not allowed, a stream larger than the size limit, or a failing
  \<open>f.save\<close>) is answered with status 400, 413 or 500 and a body holding one \<open>error\<close>
  message, and leaves the queue and the ledger as they were.
\<close>

theorem rejected_upload_changes_nothing:
  assumes "\<not> has_file req \<or> upload_filename req = [] \<or>
           \<not> allowed_file (sf (upload_filename req)) \<or>
           stream_size req > MAX_CONTENT_LENGTH \<or> \<not> save_ok req"
  shows "http_status (fst (upload sf req s)) \<in> {400, 413, 500} \<and>
         (\<exists>msg. body (fst (upload sf req s)) = [(''error'', msg)]) \<and>
         job_queue (snd (upload sf req s)) = job_queue s \<and>
         job_history (snd (upload sf req s)) = job_history s"
proof -
  from assms obtain r where "upload_enqueue sf req s = Inl r"
    using upload_enqueue_Inl_iff [of sf req s] by blast
  then obtain resp s' where r: "upload_enqueue sf req s = Inl (resp, s')"
    by (cases r) simp
  then have u: "upload sf req s = (resp, s')"
    by (simp add: upload_def)
  from upload_enqueue_rejected [OF r] show ?thesis
    by (simp add: u)
qed

theorem rejected_upload_changes_nothing_witness:
  "job_queue (snd (upload id (report_upload\<lparr>has_file := False\<rparr>) initial)) = [] \<and>
   job_history (snd (upload id (report_upload\<lparr>has_file := False\<rparr>) initial)) = [] \<and>
   job_queue (snd (upload id (report_upload\<lparr>upload_filename := []\<rparr>) initial)) = [] \<and>
   job_history (snd (upload id (report_upload\<lparr>upload_filename := []\<rparr>) initial)) = [] \<and>
   job_queue (snd (upload id (report_upload\<lparr>upload_filename := ''notes.txt''\<rparr>) initial)) = [] \<and>
   job_history (snd (upload id (report_upload\<lparr>upload_filename := ''notes.txt''\<rparr>) initial)) = [] \<and>
   job_queue (snd (upload id (report_upload\<lparr>stream_size := 52428801\<rparr>) initial)) = [] \<and>
   job_history (snd (upload id (report_upload\<lparr>stream_size := 52428801\<rparr>) initial)) = [] \<and>
   job_queue (snd (upload id (report_upload\<lparr>save_ok := False\<rparr>) initial)) = [] \<and>
   job_history (snd (upload id (report_upload\<lparr>save_ok := False\<rparr>) initial)) = []"
  using rejected_upload_changes_nothing [of "report_upload\<lparr>has_file := False\<rparr>" id initial]
    rejected_upload_changes_nothing [of "report_upload\<lparr>upload_filename := []\<rparr>" id initial]
    rejected_upload_changes_nothing [of "report_upload\<lparr>upload_filename := ''notes.txt''\<rparr>" id initial]
    rejected_upload_changes_nothing [of "report_upload\<lparr>stream_size := 52428801\<rparr>" id initial]
    rejected_upload_changes_nothing [of "report_upload\<lparr>save_ok := False\<rparr>" id initial]
  by (simp add: report_upload_def initial_def allowed_file_def rsplit_dot_def lower_def
      lower_char_def ALLOWED_EXTENSIONS_def MAX_CONTENT_LENGTH_def MAX_FILE_SIZE_MB_def)

lemma str_ts: "str_int 1700000000000 = ''1700000000000''"
  by (simp add: str_int_def str_nat.simps digit_char_def)

lemma allowed_examples: "allowed_file ''report.pdf''" "allowed_file ''slides.pptx''"
  by (simp_all add: allowed_file_def rsplit_dot_def lower_def lower_char_def ALLOWED_EXTENSIONS_def)

lemma report_upload_enqueue:
  "upload_enqueue id report_upload s =
     Inr (report_job, (do_call (Save (filepath report_job)) s)
            \<lparr>job_queue := job_queue s @ [Some report_job]\<rparr>)"
  by (simp add: upload_enqueue_def Let_def report_upload_def report_job_def allowed_examples str_ts
      MAX_CONTENT_LENGTH_def MAX_FILE_SIZE_MB_def path_join_def UPLOAD_FOLDER_def do_call_def)

lemma slides_upload_enqueue:
  "upload_enqueue id slides_upload s =
     Inr (slides_job, (do_call (Save (filepath slides_job)) s)
            \<lparr>job_queue := job_queue s @ [Some slides_job]\<rparr>)"
  by (simp add: upload_enqueue_def Let_def slides_upload_def slides_job_def allowed_examples str_ts
      MAX_CONTENT_LENGTH_def MAX_FILE_SIZE_MB_def path_join_def UPLOAD_FOLDER_def do_call_def)

lemma upload_finish_fields:
  "http_status (fst (upload_finish job s)) = 200"
  "job_history (snd (upload_finish job s)) =
     record_history
       \<lparr>timestamp = received_at job, job_id = jid job, h_filename = filename job,
        status = ''queued'', h_client = Some (client job), error = None,
        printer_response = None\<rparr> (job_history s)"
  by (simp_all add: upload_finish_def Let_def)

text \<open>
  Claim C4 does not hold of the code. The job id is \<open>job-\<close> followed by the clock
  reading in milliseconds and nothing else, so the uploads of \<open>report.pdf\<close> and
  \<open>slides.pptx\<close>, both accepted with status 200 at the clock reading 1700000000000,
  put two jobs with the same id \<open>job-1700000000000\<close> on the queue.
\<close>

theorem same_millisecond_uploads_share_job_id:
  "http_status (fst (upload id report_upload initial)) = 200 \<and>
   http_status (fst (upload id slides_upload (snd (upload id report_upload initial)))) = 200 \<and>
   job_queue (snd (upload id slides_upload (snd (upload id report_upload initial)))) =
     [Some report_job, Some slides_job] \<and>
   jid report_job = ''job-1700000000000'' \<and> jid slides_job = ''job-1700000000000''"
  by (simp add: upload_def report_upload_enqueue slides_upload_enqueue upload_finish_fields
      upload_finish_queue initial_def report_job_def slides_job_def)

section \<open>Properties of the running server\<close>

lemma jobs_in_append [simp]: "jobs_in (q @ q') = jobs_in q @ jobs_in q'"
  by (induction q rule: jobs_in.induct) simp_all

lemma shutdown_workers_queue: "jobs_in (job_queue (shutdown_workers s)) = jobs_in (job_queue s)"
  by (simp add: shutdown_workers_def Let_def WORKER_COUNT_def)

lemma sys_step_jobs:
  assumes "sys_step sf ev sys = (l, sys')"
  shows "dequeued l @ jobs_in (job_queue (srv sys')) = jobs_in (job_queue (srv sys)) @ enqueued l"
proof (cases ev)
  case (Begin req)
  show ?thesis
  proof (cases "upload_enqueue sf req (srv sys)")
    case (Inl r)
    obtain resp s' where r: "r = (resp, s')" by (cases r)
    from upload_enqueue_rejected(1) [OF Inl [unfolded r]] assms Begin Inl r
    show ?thesis by (auto simp add: sys_step_def)
  next
    case (Inr r)
    obtain job s' where r: "r = (job, s')" by (cases r)
    from upload_enqueue_accepted(1) [OF Inr [unfolded r]] assms Begin Inr r
    show ?thesis by (auto simp add: sys_step_def)
  qed
next
  case (Finish k)
  with assms show ?thesis
    by (auto simp add: sys_step_def upload_finish_queue split: if_splits)
next
  case (Work w)
  with assms show ?thesis
    by (auto simp add: sys_step_def worker_loop_iter_def Let_def process_job_queue
        split: if_splits list.splits option.splits)
next
  case Shutdown
  with assms show ?thesis
    by (auto simp add: sys_step_def shutdown_workers_queue)
qed

lemma enqueued_append [simp]: "enqueued (l @ l') = enqueued l @ enqueued l'"
  by (induction l rule: enqueued.induct) simp_all

lemma dequeued_append [simp]: "dequeued (l @ l') = dequeued l @ dequeued l'"
  by (induction l rule: dequeued.induct) simp_all

lemma run_jobs:
  "dequeued (fst (run sf evs sys)) @ jobs_in (job_queue (srv (snd (run sf evs sys)))) =
     jobs_in (job_queue (srv sys)) @ enqueued (fst (run sf evs sys))"
proof (induction evs arbitrary: sys)
  case Nil
  show ?case by simp
next
  case (Cons ev evs)
  obtain l sys' where step: "sys_step sf ev sys = (l, sys')" by (cases "sys_step sf ev sys")
  obtain ls sys'' where rest: "run sf evs sys' = (ls, sys'')" by (cases "run sf evs sys'")
  from Cons.IH [of sys'] rest
  have ih: "dequeued ls @ jobs_in (job_queue (srv sys'')) = jobs_in (job_queue (srv sys')) @ enqueued ls"
    by simp
  from sys_step_jobs [OF step]
  have st: "dequeued l @ jobs_in (job_queue (srv sys')) = jobs_in (job_queue (srv sys)) @ enqueued l" .
  have "dequeued (l @ ls) @ jobs_in (job_queue (srv sys'')) =
          dequeued l @ (dequeued ls @ jobs_in (job_queue (srv sys'')))" by simp
  also have "\<dots> = dequeued l @ jobs_in (job_queue (srv sys')) @ enqueued ls"
    by (simp only: ih)
  also have "\<dots> = (jobs_in (job_queue (srv sys)) @ enqueued l) @ enqueued ls"
    using st by simp
  finally show ?case by (simp add: step rest)
qed

text \<open>
  Claim C2. In every run of the server with its one worker, from the start with an empty
  queue, whatever the order of handler steps, worker turns and shutdown: the jobs the
  worker has taken from the queue, followed by the jobs still waiting in it, are exactly
  the jobs put on the queue, in the order they were put, each as often as it was put. So
  the \<open>i\<close>-th job taken is the \<open>i\<close>-th job put: the jobs taken are the first so many of
  the jobs put.
\<close>

theorem single_worker_fifo:
  "dequeued (fst (run sf evs start)) @ jobs_in (job_queue (srv (snd (run sf evs start)))) =
     enqueued (fst (run sf evs start)) \<and>
   dequeued (fst (run sf evs start)) =
     take (length (dequeued (fst (run sf evs start)))) (enqueued (fst (run sf evs start)))"
proof -
  have a: "dequeued (fst (run sf evs start)) @ jobs_in (job_queue (srv (snd (run sf evs start)))) =
     enqueued (fst (run sf evs start))"
    using run_jobs [of sf evs start] by (simp add: start_def initial_def logger_def)
  have "take (length (dequeued (fst (run sf evs start))))
          (dequeued (fst (run sf evs start)) @ jobs_in (job_queue (srv (snd (run sf evs start)))))
        = dequeued (fst (run sf evs start))" by simp
  with a show ?thesis by simp
qed


lemma report_job_printed:
  "job_history (process_job id 1 all_well report_job s) =
     record_history (printed_entry all_well report_job ''request id is HP_LaserJet-17 (1 file(s))'')
       (record_history (processing_entry all_well report_job) (job_history s))"
proof -
  have a: "copy_ok all_well" "mkdtemp all_well = Some ''/var/lib/stark/work/tmpk3v9x2ab''"
    "print_outcome all_well = Completed 0 ''request id is HP_LaserJet-17 (1 file(s))'' []"
    by (simp_all add: all_well_def)
  have b: "rsplit_dot (filename report_job) = [''report'', ''pdf'']"
    by (simp add: report_job_def rsplit_dot_def)
  have c: "lower ''pdf'' = ''pdf''" by (simp add: lower_def lower_char_def)
  have d: "strip ''request id is HP_LaserJet-17 (1 file(s))'' = ''request id is HP_LaserJet-17 (1 file(s))''"
    by (simp add: strip_def is_space_def)
  show ?thesis
    by (simp add: process_job_history a(2) with_tmpdir_pdf [OF a(1) b c] Let_def print_pdf_fst a(3) d)
qed

text \<open>
  Claim C5 does not hold of the code. \<open>upload\<close> puts the job on the queue before it
  records the \<open>queued\<close> entry. In the run where the handler of \<open>report.pdf\<close> has put
  its job, the worker then takes and prints it, and the handler then goes on, the ledger
  holds for the one job id the entries \<open>processing\<close>, \<open>printed\<close>, \<open>queued\<close> in this
  order.
\<close>

theorem processing_recorded_before_queued:
  "fst (run id [Begin report_upload, Work all_well, Finish 0] start) =
     [Enqueued report_job, Dequeued report_job] \<and>
   map job_id (job_history (srv (snd (run id [Begin report_upload, Work all_well, Finish 0] start)))) =
     [''job-1700000000000'', ''job-1700000000000'', ''job-1700000000000''] \<and>
   map status (job_history (srv (snd (run id [Begin report_upload, Work all_well, Finish 0] start)))) =
     [''processing'', ''printed'', ''queued'']"
proof -
  let ?s1 = "(do_call (Save (filepath report_job)) (srv start))
               \<lparr>job_queue := job_queue (srv start) @ [Some report_job]\<rparr>"
  let ?sys1 = "start\<lparr>srv := ?s1, handlers := handlers start @ [report_job]\<rparr>"
  have q0: "job_queue (srv start) = []" "job_history (srv start) = []" "worker_alive start"
    "handlers start = []"
    by (simp_all add: start_def initial_def logger_def)
  have step1: "sys_step id (Begin report_upload) start = ([Enqueued report_job], ?sys1)"
    by (simp add: sys_step_def report_upload_enqueue)
  let ?s2 = "process_job id 1 all_well report_job (?s1\<lparr>job_queue := []\<rparr>)"
  let ?sys2 = "?sys1\<lparr>srv := ?s2\<rparr>"
  have step2: "sys_step id (Work all_well) ?sys1 = ([Dequeued report_job], ?sys2)"
    by (simp add: sys_step_def worker_loop_iter_def q0 Let_def)
  let ?sys3 = "?sys2\<lparr>srv := snd (upload_finish report_job ?s2), handlers := []\<rparr>"
  have step3: "sys_step id (Finish 0) ?sys2 = ([], ?sys3)"
    by (simp add: sys_step_def q0)
  have r: "run id [Begin report_upload, Work all_well, Finish 0] start =
             ([Enqueued report_job, Dequeued report_job], ?sys3)"
    by (simp only: run.simps step1 step2 step3 Let_def prod.case append.simps)
  have h: "job_history (srv ?sys3) =
      [processing_entry all_well report_job,
       printed_entry all_well report_job ''request id is HP_LaserJet-17 (1 file(s))'',
       \<lparr>timestamp = received_at report_job, job_id = jid report_job,
        h_filename = filename report_job, status = ''queued'',
        h_client = Some (client report_job), error = None, printer_response = None\<rparr>]"
    by (simp add: upload_finish_fields report_job_printed q0 record_history_def)
  have f: "fst (run id [Begin report_upload, Work all_well, Finish 0] start) =
             [Enqueued report_job, Dequeued report_job]"
    by (simp only: r fst_conv)
  have g: "job_history (srv (snd (run id [Begin report_upload, Work all_well, Finish 0] start))) =
      [processing_entry all_well report_job,
       printed_entry all_well report_job ''request id is HP_LaserJet-17 (1 file(s))'',
       \<lparr>timestamp = received_at report_job, job_id = jid report_job,
        h_filename = filename report_job, status = ''queued'',
        h_client = Some (client report_job), error = None, printer_response = None\<rparr>]"
    by (simp only: r snd_conv h)
  have e: "map job_id [processing_entry all_well report_job,
       printed_entry all_well report_job ''request id is HP_LaserJet-17 (1 file(s))'',
       \<lparr>timestamp = received_at report_job, job_id = jid report_job,
        h_filename = filename report_job, status = ''queued'',
        h_client = Some (client report_job), error = None, printer_response = None\<rparr>]
      = [''job-1700000000000'', ''job-1700000000000'', ''job-1700000000000'']"
    "map status [processing_entry all_well report_job,
       printed_entry all_well report_job ''request id is HP_LaserJet-17 (1 file(s))'',
       \<lparr>timestamp = received_at report_job, job_id = jid report_job,
        h_filename = filename report_job, status = ''queued'',
        h_client = Some (client report_job), error = None, printer_response = None\<rparr>]
      = [''processing'', ''printed'', ''queued'']"
    by (simp_all add: processing_entry_def printed_entry_def report_job_def)
  show ?thesis
    by (simp only: f g e simp_thms)
qed

end
